theory Spec2Isabelle
  imports Main
begin

section \<open>Sentinel errors\<close>

text \<open>
  The packages declare their failure conditions as package-level values built with
  \<^verbatim>\<open>errors.New\<close>; a caller compares an error against them by identity. Each
  sentinel is a constructor, \<open>Error\<close> gives its message. A Go \<^verbatim>\<open>error\<close> result is an
  \<open>error option\<close>, \<open>None\<close> being \<^verbatim>\<open>nil\<close>.
\<close>

datatype error =
    ErrConnectFailed
  | ErrCacheNil
  | ErrNotFound
  | ErrFailedToUpload
  | ErrFailedToDownload
  | ErrFailedToStats

fun Error :: "error \<Rightarrow> string" where
  "Error ErrConnectFailed = ''pubsub: connect is failed''"
| "Error ErrCacheNil = ''cache: nil''"
| "Error ErrNotFound = ''bucket: not found''"
| "Error ErrFailedToUpload = ''bucket: failed to upload''"
| "Error ErrFailedToDownload = ''bucket: failed to download''"
| "Error ErrFailedToStats = ''bucket: failed to get stats''"

section \<open>Package orm: the MySQL record base\<close>

text \<open>
  \<^verbatim>\<open>time.Time\<close> is an instant; only its identity matters here, so it is an integer
  (nanoseconds since the Unix epoch). \<^verbatim>\<open>gorm.DeletedAt\<close> is \<^verbatim>\<open>sql.NullTime\<close>: a time
  and the flag that says whether it is set.
\<close>

type_synonym Time = int

record gorm_DeletedAt =
  Time :: Time
  Valid :: bool

record MModel =
  ID :: string
  CreatedAt :: Time
  UpdatedAt :: Time
  DeletedAt :: gorm_DeletedAt

text \<open>
  A Go call either returns or panics.
\<close>

datatype 'a outcome = Returned 'a | Panicked

text \<open>
  \<^verbatim>\<open>
  func (mModel *MModel) BeforeCreate(*gorm.DB) error {
      mModel.ID = uuid.New().String()
      return nil
  }
  \<close>
  \<^verbatim>\<open>uuid.New\<close> and \<^verbatim>\<open>UUID.String\<close> belong to github.com/google/uuid, outside this
  repository, and are parameters of the model: \<open>uuid_New\<close> reads the random source
  \<open>w\<close> and gives a UUID and the source's next state, or \<open>None\<close> where \<^verbatim>\<open>uuid.New\<close>
  panics (the random source failed); \<open>String\<close> formats a UUID. The receiver is the
  record the pointer refers to, returned updated; the \<^verbatim>\<open>*gorm.DB\<close> argument is
  unnamed in the source and unused.
\<close>

definition BeforeCreate ::
  "('w \<Rightarrow> ('u \<times> 'w) option) \<Rightarrow> ('u \<Rightarrow> string) \<Rightarrow> MModel \<Rightarrow> 'db \<Rightarrow> 'w
     \<Rightarrow> (MModel \<times> 'w \<times> error option) outcome" where
  "BeforeCreate uuid_New String mModel db w =
     (case uuid_New w of
        None \<Rightarrow> Panicked
      | Some (u, w') \<Rightarrow> Returned (mModel\<lparr>ID := String u\<rparr>, w', None))"

subsection \<open>A random source for evaluation\<close>

text \<open>
  To run the hook on concrete inputs the random source is the queue of the UUIDs it will
  produce next, already formatted; the empty queue is the source that fails.
\<close>

definition queue_New :: "'u list \<Rightarrow> ('u \<times> 'u list) option" where
  "queue_New w = (case w of [] \<Rightarrow> None | u # us \<Rightarrow> Some (u, us))"

definition blank_MModel :: MModel where
  "blank_MModel =
     \<lparr>ID = [], CreatedAt = 0, UpdatedAt = 0, DeletedAt = \<lparr>Time = 0, Valid = False\<rparr>\<rparr>"

definition uuid_a :: string where
  "uuid_a = ''6ba7b810-9dad-41d1-80b4-00c04fd430c8''"

definition uuid_b :: string where
  "uuid_b = ''f47ac10b-58cc-4372-a567-0e02b2c3d479''"

section \<open>Properties of \<open>BeforeCreate\<close>\<close>

lemma BeforeCreate_Some:
  "uuid_New w = Some (u, w') \<Longrightarrow>
   BeforeCreate uuid_New String mModel db w = Returned (mModel\<lparr>ID := String u\<rparr>, w', None)"
  by (simp add: BeforeCreate_def)

lemma BeforeCreate_None:
  "uuid_New w = None \<Longrightarrow> BeforeCreate uuid_New String mModel db w = Panicked"
  by (simp add: BeforeCreate_def)

lemma queue_New_Cons: "queue_New (u # us) = Some (u, us)"
  by (simp add: queue_New_def)

text \<open>
  C1 (as stated): once assigned, the identifier is never changed; \<open>BeforeCreate\<close> leaves an
  already-assigned ID intact on that and any later invocation. This fails: a blank record
  gets \<open>uuid_a\<close> from the first invocation, and the second invocation replaces that
  assigned ID by \<open>uuid_b\<close>.
\<close>

theorem BeforeCreate_keeps_ID_counterexample:
  "BeforeCreate queue_New id blank_MModel () [uuid_a, uuid_b]
     = Returned (blank_MModel\<lparr>ID := uuid_a\<rparr>, [uuid_b], None)
   \<and> ID (blank_MModel\<lparr>ID := uuid_a\<rparr>) \<noteq> []
   \<and> BeforeCreate queue_New id (blank_MModel\<lparr>ID := uuid_a\<rparr>) () [uuid_b]
       = Returned (blank_MModel\<lparr>ID := uuid_b\<rparr>, [], None)
   \<and> ID (blank_MModel\<lparr>ID := uuid_b\<rparr>) \<noteq> ID (blank_MModel\<lparr>ID := uuid_a\<rparr>)"
  by (simp add: BeforeCreate_def queue_New_def uuid_a_def uuid_b_def)

text \<open>
  C1 (amended): \<open>BeforeCreate\<close> assigns the identifier on every invocation. Whenever
  \<^verbatim>\<open>uuid.New\<close> succeeds, the hook returns \<^verbatim>\<open>nil\<close> and the record's ID is the string of
  the UUID just generated, whatever ID the record held before: the outcome is the same
  for every previous ID.
\<close>

theorem BeforeCreate_assigns_new_ID:
  assumes "uuid_New w = Some (u, w')"
  shows "(\<exists>m'. BeforeCreate uuid_New String mModel db w = Returned (m', w', None)
            \<and> ID m' = String u)
       \<and> BeforeCreate uuid_New String (mModel\<lparr>ID := previous\<rparr>) db w
           = BeforeCreate uuid_New String mModel db w"
proof
  from assms
  have "BeforeCreate uuid_New String mModel db w
          = Returned (mModel\<lparr>ID := String u\<rparr>, w', None)"
    by (rule BeforeCreate_Some)
  moreover have "ID (mModel\<lparr>ID := String u\<rparr>) = String u"
    by simp
  ultimately show "\<exists>m'. BeforeCreate uuid_New String mModel db w = Returned (m', w', None)
                     \<and> ID m' = String u"
    by blast
next
  show "BeforeCreate uuid_New String (mModel\<lparr>ID := previous\<rparr>) db w
          = BeforeCreate uuid_New String mModel db w"
    by (simp add: BeforeCreate_def split: option.split)
qed

theorem BeforeCreate_assigns_new_ID_witness:
  "queue_New [uuid_b] = Some (uuid_b, [])
   \<and> (\<exists>m'. BeforeCreate queue_New id (blank_MModel\<lparr>ID := uuid_a\<rparr>) () [uuid_b]
            = Returned (m', [], None)
          \<and> ID m' = uuid_b)
   \<and> BeforeCreate queue_New id (blank_MModel\<lparr>ID := uuid_b\<rparr>) () [uuid_b]
       = BeforeCreate queue_New id (blank_MModel\<lparr>ID := uuid_a\<rparr>) () [uuid_b]"
proof -
  have h: "queue_New [uuid_b] = Some (uuid_b, [])"
    by (rule queue_New_Cons)
  show ?thesis
    using h BeforeCreate_assigns_new_ID
      [where uuid_New = queue_New and w = "[uuid_b]" and u = uuid_b and w' = "[]"
         and String = id and mModel = "blank_MModel\<lparr>ID := uuid_a\<rparr>" and db = "()"
         and previous = uuid_b, OF h]
    by simp
qed

text \<open>
  C9: \<open>BeforeCreate\<close> never reports an error, and whenever \<^verbatim>\<open>uuid.New\<close> yields a UUID
  the call returns \<^verbatim>\<open>nil\<close> with \<open>CreatedAt\<close>, \<open>UpdatedAt\<close> and \<open>DeletedAt\<close> as they were
  before the call: only the ID field is written.
\<close>

theorem BeforeCreate_returns_nil_frame:
  assumes "uuid_New w = Some (u, w')"
  shows "(\<exists>m'. BeforeCreate uuid_New String mModel db w = Returned (m', w', None)
            \<and> CreatedAt m' = CreatedAt mModel
            \<and> UpdatedAt m' = UpdatedAt mModel
            \<and> DeletedAt m' = DeletedAt mModel
            \<and> m'\<lparr>ID := ID mModel\<rparr> = mModel)
       \<and> (\<forall>v m'' w'' e. BeforeCreate uuid_New String mModel db v
                          \<noteq> Returned (m'', w'', Some e))"
proof
  from assms
  have "BeforeCreate uuid_New String mModel db w
          = Returned (mModel\<lparr>ID := String u\<rparr>, w', None)"
    by (rule BeforeCreate_Some)
  then show "\<exists>m'. BeforeCreate uuid_New String mModel db w = Returned (m', w', None)
               \<and> CreatedAt m' = CreatedAt mModel
               \<and> UpdatedAt m' = UpdatedAt mModel
               \<and> DeletedAt m' = DeletedAt mModel
               \<and> m'\<lparr>ID := ID mModel\<rparr> = mModel"
    by simp
next
  show "\<forall>v m'' w'' e. BeforeCreate uuid_New String mModel db v
                        \<noteq> Returned (m'', w'', Some e)"
    by (simp add: BeforeCreate_def split: option.split)
qed

theorem BeforeCreate_returns_nil_frame_witness:
  "queue_New [uuid_a, uuid_b] = Some (uuid_a, [uuid_b])
   \<and> (\<exists>m'. BeforeCreate queue_New id blank_MModel () [uuid_a, uuid_b]
            = Returned (m', [uuid_b], None)
          \<and> CreatedAt m' = CreatedAt blank_MModel
          \<and> UpdatedAt m' = UpdatedAt blank_MModel
          \<and> DeletedAt m' = DeletedAt blank_MModel
          \<and> m'\<lparr>ID := ID blank_MModel\<rparr> = blank_MModel)
   \<and> (\<forall>v m'' w'' e. BeforeCreate queue_New id blank_MModel () v
                      \<noteq> Returned (m'', w'', Some e))"
proof -
  have h: "queue_New [uuid_a, uuid_b] = Some (uuid_a, [uuid_b])"
    by (rule queue_New_Cons)
  show ?thesis
    using h BeforeCreate_returns_nil_frame
      [where uuid_New = queue_New and w = "[uuid_a, uuid_b]" and u = uuid_a
         and w' = "[uuid_b]" and String = id and mModel = blank_MModel and db = "()", OF h]
    by simp
qed

end
